theory Spec2Isabelle
  imports Complex_Main
begin

section \<open>Data model of policy.py\<close>

text \<open>
  The class \<open>PolicyWithQs\<close> of \<open>policy.py\<close> wires a policy network, two critics, their
  target copies, an optional entropy-coefficient module and one Adam optimizer per
  trainable module. The networks and the optimizers are external collaborators: a network
  is seen through its name and its ordered list of parameter tensors, an optimizer through
  its name and its step counter. A tensor is a flat list of reals (floating-point rounding
  is not part of the model).
\<close>

type_synonym tensor = "real list"

datatype py_error =
  AssertionError | ZeroDivisionError | AttributeError | IndexError | ValueError | NotFoundError

text \<open>\<open>args.alpha\<close> is either the string \<open>'auto'\<close> or a fixed number.\<close>

datatype alpha_setting = Auto | Fixed real

record args =
  obs_dim :: "nat option"
  act_dim :: "nat option"
  policy_only :: bool
  double_Q :: bool
  target :: bool
  alpha :: alpha_setting
  deterministic_policy :: bool
  tau :: real
  delay_update :: int

section \<open>Action distribution: \<open>_logits2action\<close>\<close>

text \<open>
  \<open>tf.split(logits, num_or_size_splits=2, axis=-1)\<close> cuts the last axis into two halves and
  raises when its length is odd. The model takes one row of logits (a rank-1 tensor).
\<close>

definition tf_split2 :: "tensor \<Rightarrow> py_error + (tensor \<times> tensor)" where
  "tf_split2 logits =
     (if odd (length logits) then Inl ValueError
      else Inr (take (length logits div 2) logits, drop (length logits div 2) logits))"

text \<open>\<open>tfd.Normal(loc, scale).log_prob(x)\<close>, per dimension.\<close>

definition normal_log_prob :: "real \<Rightarrow> real \<Rightarrow> real \<Rightarrow> real" where
  "normal_log_prob loc scale x =
     - (((x - loc) / scale)\<^sup>2) / 2 - ln scale - ln (2 * pi) / 2"

fun log_prob :: "tensor \<Rightarrow> tensor \<Rightarrow> tensor \<Rightarrow> tensor" where
  "log_prob (m # ms) (s # ss) (x # xs) = normal_log_prob m s x # log_prob ms ss xs"
| "log_prob _ _ _ = []"

text \<open>
  \<open>_logits2action\<close> (lines 175-184). The value drawn by \<open>act_dist.sample()\<close> is the
  argument \<open>sample\<close>: dimension \<open>i\<close> of the draw is \<open>sample i\<close>, so that the draw always has
  the shape of the mean. In the stochastic branch \<open>action\<close> is overwritten by its \<open>tanh\<close>
  before line 183 reads it, and line 183 adds \<open>1e-6\<close> to the difference
  \<open>logps - log(1 - action\<^sup>2)\<close>, outside the logarithm.
\<close>

definition logits2action :: "args \<Rightarrow> tensor \<Rightarrow> (nat \<Rightarrow> real) \<Rightarrow> py_error + (tensor \<times> real)" where
  "logits2action a logits sample =
     (case tf_split2 logits of
        Inl e \<Rightarrow> Inl e
      | Inr (mean, log_std) \<Rightarrow>
          (let scale = map exp log_std;
               action = (if deterministic_policy a then mean
                         else map sample [0..<length mean]);
               logp = 0
           in if \<not> deterministic_policy a then
                (let logps = log_prob mean scale action;
                     action' = map tanh action;
                     logp' = sum_list (map2 (\<lambda>lp t. lp - ln (1 - t\<^sup>2) + 1 / 10 ^ 6) logps action')
                 in Inr (action', logp'))
              else Inr (action, logp)))"

text \<open>
  The formula of the specification for the stochastic branch, written from its words: the
  sum over the dimensions of \<open>log_prob_normal(a_raw) - log(1 - tanh(a_raw)\<^sup>2 + \<epsilon>)\<close> with
  \<open>\<epsilon> = 1e-6\<close> inside the logarithm.
\<close>

fun spec_logp :: "tensor \<Rightarrow> tensor \<Rightarrow> tensor \<Rightarrow> real" where
  "spec_logp (m # ms) (s # ss) (x # xs) =
     (normal_log_prob m s x - ln (1 - (tanh x)\<^sup>2 + 1 / 10 ^ 6)) + spec_logp ms ss xs"
| "spec_logp _ _ _ = 0"

section \<open>Modules, optimizers and the parameter group\<close>

text \<open>
  Modelled from the spec: the module interface (\<open>MLPNet\<close> and \<open>AlphaModel\<close> come from
  \<open>model.py\<close>, which is not among the sources). A module has a \<open>name\<close> and an ordered
  sequence of parameter tensors, read by \<open>get_weights()\<close> and \<open>trainable_weights\<close> and
  replaced by \<open>set_weights()\<close>. The shape validation that Keras performs inside
  \<open>set_weights\<close> is not modelled. The constructor is given the parameter values that
  the random initializer draws.
\<close>

record module =
  name :: string
  weights :: "tensor list"

definition MLPNet :: "string \<Rightarrow> tensor list \<Rightarrow> module" where
  "MLPNet nm fresh = \<lparr>name = nm, weights = fresh\<rparr>"

definition AlphaModel :: "string \<Rightarrow> tensor list \<Rightarrow> module" where
  "AlphaModel nm fresh = \<lparr>name = nm, weights = fresh\<rparr>"

definition module_get_weights :: "module \<Rightarrow> tensor list" where
  "module_get_weights m = weights m"

definition module_trainable_weights :: "module \<Rightarrow> tensor list" where
  "module_trainable_weights m = weights m"

definition module_set_weights :: "tensor list \<Rightarrow> module \<Rightarrow> module" where
  "module_set_weights ws m = m\<lparr>weights := ws\<rparr>"

text \<open>
  Modelled from the spec: the optimizer interface (Keras' Adam). It consumes pairs
  (gradient, parameter) and each apply is one optimization step. Its update arithmetic is
  a black box: the parameter \<open>upd\<close> of the functions below gives the new value of one
  variable from the optimizer, the gradient and the old value. Only the variables that
  occur in a pair are touched.
\<close>

record optimizer =
  opt_name :: string
  iterations :: nat

definition Adam :: "string \<Rightarrow> optimizer" where
  "Adam nm = \<lparr>opt_name = nm, iterations = 0\<rparr>"

type_synonym update_rule = "optimizer \<Rightarrow> tensor \<Rightarrow> tensor \<Rightarrow> tensor"

text \<open>
  \<open>opt.apply_gradients(zip(grad, m.trainable_weights))\<close>: Python's \<open>zip\<close> stops at the
  shorter of its two arguments, so the variables beyond the last pair stay as they are and
  the gradients beyond the last variable are dropped.
\<close>

definition optimizer_apply_gradients ::
    "update_rule \<Rightarrow> tensor list \<Rightarrow> module \<Rightarrow> optimizer \<Rightarrow> module \<times> optimizer" where
  "optimizer_apply_gradients upd grad m opt =
     (let pairs = zip grad (module_trainable_weights m)
      in (m\<lparr>weights := map (\<lambda>(g, w). upd opt g w) pairs @ drop (length pairs) (weights m)\<rparr>,
          opt\<lparr>iterations := Suc (iterations opt)\<rparr>))"

text \<open>
  The object of class \<open>PolicyWithQs\<close>. The tuples \<open>models\<close>, \<open>target_models\<close> and
  \<open>optimizers\<close> hold references to the objects that the attributes \<open>policy\<close>, \<open>Q1\<close>, ...
  also name, so the model keeps references there and resolves them in the record.
  \<open>alpha_model\<close> and \<open>alpha_optimizer\<close> exist only when \<open>args.alpha == 'auto'\<close>.
\<close>

datatype module_ref =
  Ref_policy | Ref_policy_target | Ref_Q1 | Ref_Q1_target | Ref_Q2 | Ref_Q2_target | Ref_alpha_model

datatype optimizer_ref =
  Ref_policy_optimizer | Ref_Q1_optimizer | Ref_Q2_optimizer | Ref_alpha_optimizer

record PolicyWithQs =
  args :: args
  policy :: module
  policy_target :: module
  policy_optimizer :: optimizer
  Q1 :: module
  Q1_target :: module
  Q1_optimizer :: optimizer
  Q2 :: module
  Q2_target :: module
  Q2_optimizer :: optimizer
  alpha_model :: "module option"
  alpha_optimizer :: "optimizer option"
  target_models :: "module_ref list"
  models :: "module_ref list"
  optimizers :: "optimizer_ref list"

fun get_module :: "PolicyWithQs \<Rightarrow> module_ref \<Rightarrow> module option" where
  "get_module self Ref_policy = Some (policy self)"
| "get_module self Ref_policy_target = Some (policy_target self)"
| "get_module self Ref_Q1 = Some (Q1 self)"
| "get_module self Ref_Q1_target = Some (Q1_target self)"
| "get_module self Ref_Q2 = Some (Q2 self)"
| "get_module self Ref_Q2_target = Some (Q2_target self)"
| "get_module self Ref_alpha_model = alpha_model self"

fun put_module :: "module_ref \<Rightarrow> module \<Rightarrow> PolicyWithQs \<Rightarrow> PolicyWithQs" where
  "put_module Ref_policy m self = self\<lparr>policy := m\<rparr>"
| "put_module Ref_policy_target m self = self\<lparr>policy_target := m\<rparr>"
| "put_module Ref_Q1 m self = self\<lparr>Q1 := m\<rparr>"
| "put_module Ref_Q1_target m self = self\<lparr>Q1_target := m\<rparr>"
| "put_module Ref_Q2 m self = self\<lparr>Q2 := m\<rparr>"
| "put_module Ref_Q2_target m self = self\<lparr>Q2_target := m\<rparr>"
| "put_module Ref_alpha_model m self = self\<lparr>alpha_model := Some m\<rparr>"

fun get_optimizer :: "PolicyWithQs \<Rightarrow> optimizer_ref \<Rightarrow> optimizer option" where
  "get_optimizer self Ref_policy_optimizer = Some (policy_optimizer self)"
| "get_optimizer self Ref_Q1_optimizer = Some (Q1_optimizer self)"
| "get_optimizer self Ref_Q2_optimizer = Some (Q2_optimizer self)"
| "get_optimizer self Ref_alpha_optimizer = alpha_optimizer self"

fun put_optimizer :: "optimizer_ref \<Rightarrow> optimizer \<Rightarrow> PolicyWithQs \<Rightarrow> PolicyWithQs" where
  "put_optimizer Ref_policy_optimizer opt self = self\<lparr>policy_optimizer := opt\<rparr>"
| "put_optimizer Ref_Q1_optimizer opt self = self\<lparr>Q1_optimizer := opt\<rparr>"
| "put_optimizer Ref_Q2_optimizer opt self = self\<lparr>Q2_optimizer := opt\<rparr>"
| "put_optimizer Ref_alpha_optimizer opt self = self\<lparr>alpha_optimizer := Some opt\<rparr>"

section \<open>Construction: \<open>__init__\<close>\<close>

text \<open>
  A gym space is a \<open>Box\<close> with a shape, or something else. \<open>fresh\<close> holds the initial
  parameters that the seven network constructors draw, each on its own. The dimensions
  \<open>obs_dim\<close> and \<open>act_dim\<close> only size the networks; they are read from \<open>shape[0]\<close> of the
  spaces when \<open>args\<close> leaves them \<open>None\<close>, which raises on a Box without axes. The
  learning-rate schedules only parametrise the optimizers' arithmetic.
\<close>

datatype space = Box "nat list" | Other_space

record fresh =
  fresh_policy :: "tensor list"
  fresh_policy_target :: "tensor list"
  fresh_Q1 :: "tensor list"
  fresh_Q1_target :: "tensor list"
  fresh_Q2 :: "tensor list"
  fresh_Q2_target :: "tensor list"
  fresh_alpha :: "tensor list"

definition PolicyWithQs_init ::
    "fresh \<Rightarrow> space \<Rightarrow> space \<Rightarrow> args \<Rightarrow> py_error + PolicyWithQs" where
  "PolicyWithQs_init fr obs_space act_space a =
     (case obs_space of Other_space \<Rightarrow> Inl AssertionError | Box obs_shape \<Rightarrow>
      (case act_space of Other_space \<Rightarrow> Inl AssertionError | Box act_shape \<Rightarrow>
       if obs_dim a = None \<and> obs_shape = [] then Inl IndexError
       else if act_dim a = None \<and> act_shape = [] then Inl IndexError
       else
        (let self0 = \<lparr>args = a,
               policy = MLPNet ''policy'' (fresh_policy fr),
               policy_target = MLPNet ''policy_target'' (fresh_policy_target fr),
               policy_optimizer = Adam ''policy_adam_opt'',
               Q1 = MLPNet ''Q1'' (fresh_Q1 fr),
               Q1_target = module_set_weights (module_get_weights (MLPNet ''Q1'' (fresh_Q1 fr)))
                             (MLPNet ''Q1_target'' (fresh_Q1_target fr)),
               Q1_optimizer = Adam ''Q1_adam_opt'',
               Q2 = MLPNet ''Q2'' (fresh_Q2 fr),
               Q2_target = module_set_weights (module_get_weights (MLPNet ''Q2'' (fresh_Q2 fr)))
                             (MLPNet ''Q2_target'' (fresh_Q2_target fr)),
               Q2_optimizer = Adam ''Q2_adam_opt'',
               alpha_model = None,
               alpha_optimizer = None,
               target_models = [],
               models = [],
               optimizers = []\<rparr>
         in
          (case
             (if policy_only a then
                Inr (self0\<lparr>target_models := [],
                           models := [Ref_policy],
                           optimizers := [Ref_policy_optimizer]\<rparr>)
              else if double_Q a then
                (if \<not> target a then Inl AssertionError
                 else Inr (self0\<lparr>target_models := [Ref_Q1_target, Ref_Q2_target, Ref_policy_target],
                                 models := [Ref_Q1, Ref_Q2, Ref_policy],
                                 optimizers := [Ref_Q1_optimizer, Ref_Q2_optimizer,
                                                Ref_policy_optimizer]\<rparr>))
              else if target a then
                Inr (self0\<lparr>target_models := [Ref_Q1_target, Ref_policy_target],
                           models := [Ref_Q1, Ref_policy],
                           optimizers := [Ref_Q1_optimizer, Ref_policy_optimizer]\<rparr>)
              else
                Inr (self0\<lparr>target_models := [],
                           models := [Ref_Q1, Ref_policy],
                           optimizers := [Ref_Q1_optimizer, Ref_policy_optimizer]\<rparr>))
           of Inl e \<Rightarrow> Inl e
            | Inr self1 \<Rightarrow>
                if alpha a = Auto then
                  Inr (self1\<lparr>alpha_model := Some (AlphaModel ''alpha'' (fresh_alpha fr)),
                             alpha_optimizer := Some (Adam ''alpha_adam_opt''),
                             models := models self1 @ [Ref_alpha_model],
                             optimizers := optimizers self1 @ [Ref_alpha_optimizer]\<rparr>)
                else Inr self1))))"

section \<open>Snapshots: \<open>get_weights\<close>, \<open>trainable_weights\<close>, \<open>set_weights\<close>\<close>

text \<open>
  The tuples of the Python object hold the modules themselves, so reading one of their
  entries cannot fail there. In the model an entry is a reference, and a reference to the
  alpha module in a record without one answers \<open>AttributeError\<close>; no constructed object
  is in that state.
\<close>

fun weights_of :: "PolicyWithQs \<Rightarrow> module_ref list \<Rightarrow> py_error + tensor list list" where
  "weights_of self [] = Inr []"
| "weights_of self (r # rs) =
     (case get_module self r of
        None \<Rightarrow> Inl AttributeError
      | Some model \<Rightarrow>
          (case weights_of self rs of
             Inl e \<Rightarrow> Inl e
           | Inr ws \<Rightarrow> Inr (module_get_weights model # ws)))"

definition get_weights :: "PolicyWithQs \<Rightarrow> py_error + tensor list list" where
  "get_weights self =
     (case weights_of self (models self) of
        Inl e \<Rightarrow> Inl e
      | Inr ws \<Rightarrow>
          (case weights_of self (target_models self) of
             Inl e \<Rightarrow> Inl e
           | Inr wts \<Rightarrow> Inr (ws @ wts)))"

definition trainable_weights :: "PolicyWithQs \<Rightarrow> py_error + tensor list" where
  "trainable_weights self =
     (case weights_of self (models self) of
        Inl e \<Rightarrow> Inl e
      | Inr ws \<Rightarrow> Inr (concat ws))"

text \<open>
  A mutating method returns the error it raised, if any, and the object as it is when the
  method ends: what was written before an exception stays written.
\<close>

type_synonym outcome = "py_error option \<times> PolicyWithQs"

definition set_module_weights :: "module_ref \<Rightarrow> tensor list \<Rightarrow> PolicyWithQs \<Rightarrow> outcome" where
  "set_module_weights r weight self =
     (case get_module self r of
        None \<Rightarrow> (Some AttributeError, self)
      | Some model \<Rightarrow> (None, put_module r (module_set_weights weight model) self))"

text \<open>
  The loop of \<open>set_weights\<close> (lines 98-102) from index \<open>i\<close> on. Indexing a tuple beyond its
  end raises \<open>IndexError\<close>; \<open>i - len(self.models)\<close> is never negative in the else branch.
\<close>

fun set_weights_from :: "nat \<Rightarrow> tensor list list \<Rightarrow> PolicyWithQs \<Rightarrow> outcome" where
  "set_weights_from i [] self = (None, self)"
| "set_weights_from i (weight # rest) self =
     (if i < length (models self) then
        (case set_module_weights (models self ! i) weight self of
           (Some e, self') \<Rightarrow> (Some e, self')
         | (None, self') \<Rightarrow> set_weights_from (Suc i) rest self')
      else if i - length (models self) < length (target_models self) then
        (case set_module_weights (target_models self ! (i - length (models self))) weight self of
           (Some e, self') \<Rightarrow> (Some e, self')
         | (None, self') \<Rightarrow> set_weights_from (Suc i) rest self')
      else (Some IndexError, self))"

definition set_weights :: "tensor list list \<Rightarrow> PolicyWithQs \<Rightarrow> outcome" where
  "set_weights ws self = set_weights_from 0 ws self"

section \<open>Target smoothing: \<open>update_Q1_target\<close>, \<open>update_Q2_target\<close>, \<open>update_policy_target\<close>\<close>

text \<open>
  \<open>tau * source + (1.0 - tau) * target\<close> on two arrays of one shape is element-wise. The
  list comprehension zips the two parameter lists.
\<close>

definition blend :: "real \<Rightarrow> tensor \<Rightarrow> tensor \<Rightarrow> tensor" where
  "blend t source target' = map2 (\<lambda>x y. t * x + (1 - t) * y) source target'"

definition update_Q1_target :: "PolicyWithQs \<Rightarrow> PolicyWithQs" where
  "update_Q1_target self =
     (let t = tau (args self);
          source_params = module_get_weights (Q1 self);
          target_params = module_get_weights (Q1_target self)
      in self\<lparr>Q1_target :=
           module_set_weights (map2 (blend t) source_params target_params) (Q1_target self)\<rparr>)"

definition update_Q2_target :: "PolicyWithQs \<Rightarrow> PolicyWithQs" where
  "update_Q2_target self =
     (let t = tau (args self);
          source_params = module_get_weights (Q2 self);
          target_params = module_get_weights (Q2_target self)
      in self\<lparr>Q2_target :=
           module_set_weights (map2 (blend t) source_params target_params) (Q2_target self)\<rparr>)"

definition update_policy_target :: "PolicyWithQs \<Rightarrow> PolicyWithQs" where
  "update_policy_target self =
     (let t = tau (args self);
          source_params = module_get_weights (policy self);
          target_params = module_get_weights (policy_target self)
      in self\<lparr>policy_target :=
           module_set_weights (map2 (blend t) source_params target_params) (policy_target self)\<rparr>)"

section \<open>Gradient routing: \<open>apply_gradients\<close>\<close>

text \<open>
  A Python slice \<open>xs[i:j]\<close> with non-negative bounds never raises: it keeps what exists of
  the positions \<open>i..j-1\<close>. \<open>xs[-1:]\<close> is the last element as a list, or the empty list.
\<close>

definition py_slice :: "nat \<Rightarrow> nat \<Rightarrow> 'a list \<Rightarrow> 'a list" where
  "py_slice i j xs = drop i (take j xs)"

definition py_last1 :: "'a list \<Rightarrow> 'a list" where
  "py_last1 xs = drop (length xs - 1) xs"



text \<open>One statement \<open>self.X_optimizer.apply_gradients(zip(grad, self.X.trainable_weights))\<close> each.\<close>

definition apply_policy :: "update_rule \<Rightarrow> tensor list \<Rightarrow> PolicyWithQs \<Rightarrow> PolicyWithQs" where
  "apply_policy upd grad self =
     (case optimizer_apply_gradients upd grad (policy self) (policy_optimizer self) of
        (m, opt) \<Rightarrow> self\<lparr>policy := m, policy_optimizer := opt\<rparr>)"

definition apply_Q1 :: "update_rule \<Rightarrow> tensor list \<Rightarrow> PolicyWithQs \<Rightarrow> PolicyWithQs" where
  "apply_Q1 upd grad self =
     (case optimizer_apply_gradients upd grad (Q1 self) (Q1_optimizer self) of
        (m, opt) \<Rightarrow> self\<lparr>Q1 := m, Q1_optimizer := opt\<rparr>)"

definition apply_Q2 :: "update_rule \<Rightarrow> tensor list \<Rightarrow> PolicyWithQs \<Rightarrow> PolicyWithQs" where
  "apply_Q2 upd grad self =
     (case optimizer_apply_gradients upd grad (Q2 self) (Q2_optimizer self) of
        (m, opt) \<Rightarrow> self\<lparr>Q2 := m, Q2_optimizer := opt\<rparr>)"

definition apply_alpha :: "update_rule \<Rightarrow> tensor list \<Rightarrow> PolicyWithQs \<Rightarrow> outcome" where
  "apply_alpha upd grad self =
     (case (alpha_optimizer self, alpha_model self) of
        (Some opt, Some m) \<Rightarrow>
          (case optimizer_apply_gradients upd grad m opt of
             (m', opt') \<Rightarrow> (None, self\<lparr>alpha_model := Some m', alpha_optimizer := Some opt'\<rparr>))
      | _ \<Rightarrow> (Some AttributeError, self))"

text \<open>
  \<open>apply_gradients\<close> (lines 104-136). \<open>iteration % delay_update\<close> on Python integers is the
  floored remainder, as \<open>mod\<close> on \<open>int\<close>, and raises when \<open>delay_update\<close> is zero; by then
  the critic optimizers have been applied.
\<close>

definition apply_gradients :: "update_rule \<Rightarrow> int \<Rightarrow> tensor list \<Rightarrow> PolicyWithQs \<Rightarrow> outcome" where
  "apply_gradients upd iteration grads self =
     (if policy_only (args self) then
        (let policy_grad = grads in (None, apply_policy upd policy_grad self))
      else if double_Q (args self) then
        (let q_weights_len = length (module_trainable_weights (Q1 self));
             policy_weights_len = length (module_trainable_weights (policy self));
             q1_grad = py_slice 0 q_weights_len grads;
             q2_grad = py_slice q_weights_len (2 * q_weights_len) grads;
             policy_grad = py_slice (2 * q_weights_len) (2 * q_weights_len + policy_weights_len) grads;
             self1 = apply_Q1 upd q1_grad self;
             self2 = apply_Q2 upd q2_grad self1
         in if delay_update (args self2) = 0 then (Some ZeroDivisionError, self2)
            else if iteration mod delay_update (args self2) = 0 then
              (let self3 = apply_policy upd policy_grad self2;
                   self4 = update_policy_target self3;
                   self5 = update_Q1_target self4;
                   self6 = update_Q2_target self5
               in if alpha (args self6) = Auto then
                    (let alpha_grad = py_last1 grads in apply_alpha upd alpha_grad self6)
                  else (None, self6))
            else (None, self2))
      else
        (let q_weights_len = length (module_trainable_weights (Q1 self));
             policy_weights_len = length (module_trainable_weights (policy self));
             q1_grad = py_slice 0 q_weights_len grads;
             policy_grad = py_slice q_weights_len (q_weights_len + policy_weights_len) grads;
             self1 = apply_Q1 upd q1_grad self
         in if delay_update (args self1) = 0 then (Some ZeroDivisionError, self1)
            else if iteration mod delay_update (args self1) = 0 then
              (let self2 = apply_policy upd policy_grad self1
               in case (if alpha (args self2) = Auto then
                          (let alpha_grad = py_last1 grads in apply_alpha upd alpha_grad self2)
                        else (None, self2)) of
                    (Some e, self3) \<Rightarrow> (Some e, self3)
                  | (None, self3) \<Rightarrow>
                      if target (args self3) then
                        (let self4 = update_policy_target self3;
                             self5 = update_Q1_target self4
                         in (None, self5))
                      else (None, self3))
            else (None, self1)))"

section \<open>Actions: \<open>compute_action\<close>, \<open>compute_target_action\<close>\<close>

text \<open>
  The forward pass of a network is the parameter \<open>forward\<close>: the logits a module computes
  for an observation.
\<close>

definition compute_action ::
    "(module \<Rightarrow> 'obs \<Rightarrow> tensor) \<Rightarrow> PolicyWithQs \<Rightarrow> 'obs \<Rightarrow> (nat \<Rightarrow> real) \<Rightarrow> py_error + (tensor \<times> real)" where
  "compute_action forward self obs sample =
     (let logits = forward (policy self) obs in logits2action (args self) logits sample)"

definition compute_target_action ::
    "(module \<Rightarrow> 'obs \<Rightarrow> tensor) \<Rightarrow> PolicyWithQs \<Rightarrow> 'obs \<Rightarrow> (nat \<Rightarrow> real) \<Rightarrow> py_error + (tensor \<times> real)" where
  "compute_target_action forward self obs sample =
     (let logits = forward (policy_target self) obs in logits2action (args self) logits sample)"

section \<open>Checkpoints: \<open>save_weights\<close>, \<open>load_weights\<close>\<close>

text \<open>\<open>str(iteration)\<close> for a Python integer: its decimal digits, with a sign when negative.\<close>

definition digit_char :: "nat \<Rightarrow> char" where
  "digit_char n = ''0123456789'' ! n"

function str_nat :: "nat \<Rightarrow> string" where
  "str_nat n = (if n < 10 then [digit_char n] else str_nat (n div 10) @ [digit_char (n mod 10)])"
  by pat_completeness auto
termination
  by (relation "measure id") auto

declare str_nat.simps [simp del]

definition str :: "int \<Rightarrow> string" where
  "str i = (if i < 0 then CHR ''-'' # str_nat (nat (- i)) else str_nat (nat i))"

text \<open>
  \<open>dict(pairs)\<close>: a later pair with a key already present replaces the value in place, a
  new key goes to the end.
\<close>

fun dict_set :: "'k \<Rightarrow> 'v \<Rightarrow> ('k \<times> 'v) list \<Rightarrow> ('k \<times> 'v) list" where
  "dict_set k v [] = [(k, v)]"
| "dict_set k v ((k', v') # d) = (if k = k' then (k, v) # d else (k', v') # dict_set k v d)"

definition py_dict :: "('k \<times> 'v) list \<Rightarrow> ('k \<times> 'v) list" where
  "py_dict ps = foldl (\<lambda>d (k, v). dict_set k v d) [] ps"

text \<open>
  The objects handed to \<open>tf.train.Checkpoint\<close> are modules and optimizers of the group,
  each under its own name. What a checkpoint file keeps of a module is its value when it
  was saved. A Keras optimizer creates its step counter at its first apply: what the file
  keeps of an optimizer is its counter if it has taken a step, and nothing otherwise.
\<close>

datatype object_ref = Module_obj module_ref | Optimizer_obj optimizer_ref

datatype saved = Saved_module module | Saved_optimizer "nat option"

definition saved_counter :: "optimizer \<Rightarrow> nat option" where
  "saved_counter opt = (if iterations opt = 0 then None else Some (iterations opt))"

type_synonym checkpoint_file = "(string \<times> saved) list"

type_synonym storage = "string \<rightharpoonup> checkpoint_file"

fun model_pairs_of :: "PolicyWithQs \<Rightarrow> module_ref list \<Rightarrow> py_error + (string \<times> object_ref) list" where
  "model_pairs_of self [] = Inr []"
| "model_pairs_of self (r # rs) =
     (case get_module self r of
        None \<Rightarrow> Inl AttributeError
      | Some model \<Rightarrow>
          (case model_pairs_of self rs of
             Inl e \<Rightarrow> Inl e
           | Inr ps \<Rightarrow> Inr ((name model, Module_obj r) # ps)))"

fun optimizer_pairs_of :: "PolicyWithQs \<Rightarrow> optimizer_ref list \<Rightarrow> py_error + (string \<times> object_ref) list" where
  "optimizer_pairs_of self [] = Inr []"
| "optimizer_pairs_of self (r # rs) =
     (case get_optimizer self r of
        None \<Rightarrow> Inl AttributeError
      | Some opt \<Rightarrow>
          (case optimizer_pairs_of self rs of
             Inl e \<Rightarrow> Inl e
           | Inr ps \<Rightarrow> Inr ((opt_name opt, Optimizer_obj r) # ps)))"

text \<open>
  The first four lines that \<open>save_weights\<close> and \<open>load_weights\<close> share (lines 75-78 and
  82-85): the checkpoint object over \<open>dict(model_pairs + target_model_pairs +
  optimizer_pairs)\<close>.
\<close>

definition Checkpoint :: "PolicyWithQs \<Rightarrow> py_error + (string \<times> object_ref) list" where
  "Checkpoint self =
     (case model_pairs_of self (models self) of
        Inl e \<Rightarrow> Inl e
      | Inr model_pairs \<Rightarrow>
          (case model_pairs_of self (target_models self) of
             Inl e \<Rightarrow> Inl e
           | Inr target_model_pairs \<Rightarrow>
               (case optimizer_pairs_of self (optimizers self) of
                  Inl e \<Rightarrow> Inl e
                | Inr optimizer_pairs \<Rightarrow>
                    Inr (py_dict (model_pairs @ target_model_pairs @ optimizer_pairs)))))"

text \<open>
  TensorFlow's \<open>Checkpoint.save(file_prefix)\<close> numbers the file it writes with the save
  counter of the checkpoint object: the path is \<open>file_prefix\<close>, a dash and the counter. The
  checkpoint object of \<open>save_weights\<close> is new at every call, so the counter is 1.
  \<open>Checkpoint.restore(save_path)\<close> reads the file at exactly \<open>save_path\<close>, fails when there
  is none, and assigns the saved value to every object of the checkpoint whose name the
  file has; the other objects keep their values, and so does an optimizer for which the
  file has no counter.
\<close>

fun snapshot :: "PolicyWithQs \<Rightarrow> (string \<times> object_ref) list \<Rightarrow> checkpoint_file" where
  "snapshot self [] = []"
| "snapshot self ((n, Module_obj r) # ps) =
     (case get_module self r of
        None \<Rightarrow> snapshot self ps
      | Some m \<Rightarrow> (n, Saved_module m) # snapshot self ps)"
| "snapshot self ((n, Optimizer_obj r) # ps) =
     (case get_optimizer self r of
        None \<Rightarrow> snapshot self ps
      | Some opt \<Rightarrow> (n, Saved_optimizer (saved_counter opt)) # snapshot self ps)"

definition ckpt_save :: "PolicyWithQs \<Rightarrow> (string \<times> object_ref) list \<Rightarrow> string \<Rightarrow> storage \<Rightarrow> storage" where
  "ckpt_save self ckpt file_prefix st = st(file_prefix @ ''-1'' \<mapsto> snapshot self ckpt)"

definition restore_counter :: "nat option \<Rightarrow> optimizer \<Rightarrow> optimizer" where
  "restore_counter c live = (case c of None \<Rightarrow> live | Some n \<Rightarrow> live\<lparr>iterations := n\<rparr>)"

fun restore_object :: "object_ref \<Rightarrow> saved \<Rightarrow> PolicyWithQs \<Rightarrow> PolicyWithQs" where
  "restore_object (Module_obj r) (Saved_module m) self =
     (case get_module self r of
        None \<Rightarrow> self
      | Some live \<Rightarrow> put_module r (module_set_weights (weights m) live) self)"
| "restore_object (Optimizer_obj r) (Saved_optimizer c) self =
     (case get_optimizer self r of
        None \<Rightarrow> self
      | Some live \<Rightarrow> put_optimizer r (restore_counter c live) self)"
| "restore_object _ _ self = self"

fun restore_all :: "(string \<times> object_ref) list \<Rightarrow> checkpoint_file \<Rightarrow> PolicyWithQs \<Rightarrow> PolicyWithQs" where
  "restore_all [] file self = self"
| "restore_all ((n, r) # ps) file self =
     (case map_of file n of
        None \<Rightarrow> restore_all ps file self
      | Some v \<Rightarrow> restore_all ps file (restore_object r v self))"

definition ckpt_restore :: "(string \<times> object_ref) list \<Rightarrow> string \<Rightarrow> storage \<Rightarrow> PolicyWithQs \<Rightarrow> outcome" where
  "ckpt_restore ckpt save_path st self =
     (case st save_path of
        None \<Rightarrow> (Some NotFoundError, self)
      | Some file \<Rightarrow> (None, restore_all ckpt file self))"

definition save_weights :: "string \<Rightarrow> int \<Rightarrow> PolicyWithQs \<Rightarrow> storage \<Rightarrow> py_error + storage" where
  "save_weights save_dir iteration self st =
     (case Checkpoint self of
        Inl e \<Rightarrow> Inl e
      | Inr ckpt \<Rightarrow> Inr (ckpt_save self ckpt (save_dir @ ''/ckpt_ite'' @ str iteration) st))"

definition load_weights :: "string \<Rightarrow> int \<Rightarrow> storage \<Rightarrow> PolicyWithQs \<Rightarrow> outcome" where
  "load_weights load_dir iteration st self =
     (case Checkpoint self of
        Inl e \<Rightarrow> (Some e, self)
      | Inr ckpt \<Rightarrow> ckpt_restore ckpt (load_dir @ ''/ckpt_ite'' @ str iteration @ ''-1'') st self)"

section \<open>Objects of one layout\<close>

text \<open>
  Two objects have the same layout when their three tuples hold the same references and
  their modules and optimizers bear the same names; the alpha module and its optimizer
  exist in both or in neither. Training changes parameters and step counters, never the
  layout, and two objects built from the same \<open>args\<close> have the same layout.
\<close>

definition same_layout :: "PolicyWithQs \<Rightarrow> PolicyWithQs \<Rightarrow> bool" where
  "same_layout g h \<longleftrightarrow>
     models g = models h \<and> target_models g = target_models h \<and> optimizers g = optimizers h
     \<and> map (\<lambda>r. map_option name (get_module g r))
          [Ref_policy, Ref_policy_target, Ref_Q1, Ref_Q1_target, Ref_Q2, Ref_Q2_target, Ref_alpha_model]
       = map (\<lambda>r. map_option name (get_module h r))
          [Ref_policy, Ref_policy_target, Ref_Q1, Ref_Q1_target, Ref_Q2, Ref_Q2_target, Ref_alpha_model]
     \<and> map (\<lambda>r. map_option opt_name (get_optimizer g r))
          [Ref_policy_optimizer, Ref_Q1_optimizer, Ref_Q2_optimizer, Ref_alpha_optimizer]
       = map (\<lambda>r. map_option opt_name (get_optimizer h r))
          [Ref_policy_optimizer, Ref_Q1_optimizer, Ref_Q2_optimizer, Ref_alpha_optimizer]"

section \<open>Concrete inputs\<close>

text \<open>
  A configuration, initial parameters, an update rule (plain gradient descent with step
  1), a forward pass (one linear layer whose rows are the parameter tensors) and a draw
  for the examples below.
\<close>

definition args_example :: args where
  "args_example = \<lparr>obs_dim = None, act_dim = None, policy_only = False, double_Q = True,
     target = True, alpha = Auto, deterministic_policy = False, tau = 1 / 2, delay_update = 2\<rparr>"

definition fresh_example :: fresh where
  "fresh_example = \<lparr>fresh_policy = [[1, 2], [3, 4]], fresh_policy_target = [[5, 6], [7, 8]],
     fresh_Q1 = [[9], [10]], fresh_Q1_target = [[11], [12]],
     fresh_Q2 = [[13], [14]], fresh_Q2_target = [[15], [16]], fresh_alpha = [[0]]\<rparr>"

definition upd_example :: update_rule where
  "upd_example opt g w = map2 (\<lambda>x y. x - y) w g"

definition forward_example :: "module \<Rightarrow> real list \<Rightarrow> tensor" where
  "forward_example m obs = map (\<lambda>row. sum_list (map2 (\<lambda>x y. x * y) row obs)) (weights m)"

definition sample_zero :: "nat \<Rightarrow> real" where
  "sample_zero i = 0"

definition group_example :: PolicyWithQs where
  "group_example = projr (PolicyWithQs_init fresh_example (Box [2]) (Box [1]) args_example)"

definition group_policy_only :: PolicyWithQs where
  "group_policy_only = projr (PolicyWithQs_init fresh_example (Box [2]) (Box [1])
     (args_example\<lparr>policy_only := True, alpha := Fixed (1 / 5)\<rparr>))"

definition fresh_zero :: fresh where
  "fresh_zero = \<lparr>fresh_policy = [[0, 0], [0, 0]], fresh_policy_target = [[0, 0], [0, 0]],
     fresh_Q1 = [[0], [0]], fresh_Q1_target = [[0], [0]],
     fresh_Q2 = [[0], [0]], fresh_Q2_target = [[0], [0]], fresh_alpha = [[1]]\<rparr>"

definition group_zero :: PolicyWithQs where
  "group_zero = projr (PolicyWithQs_init fresh_zero (Box [2]) (Box [1]) args_example)"

definition grads_surplus :: "tensor list" where
  "grads_surplus = [[1], [1], [1], [1], [1, 1], [1, 1], [9, 9, 9], [1]]"

definition group_stepped :: PolicyWithQs where
  "group_stepped = snd (apply_gradients upd_example 0 grads_surplus group_example)"

section \<open>Properties\<close>

lemmas init_defs = PolicyWithQs_init_def MLPNet_def AlphaModel_def Adam_def
  module_set_weights_def module_get_weights_def

lemmas apply_defs = apply_policy_def apply_Q1_def apply_Q2_def apply_alpha_def
  optimizer_apply_gradients_def module_trainable_weights_def

lemma args_group_example: "args group_example = args_example"
  by (simp add: group_example_def init_defs args_example_def)

subsection \<open>The action distribution\<close>

lemma tf_split2_halves:
  "length mean = length log_std \<Longrightarrow> tf_split2 (mean @ log_std) = Inr (mean, log_std)"
  by (simp add: tf_split2_def)

text \<open>
  C6: with the deterministic-policy flag set, \<open>compute_action\<close> returns the first half of
  the policy's logits, the mean of the Normal distribution, as it is (no tanh), and the
  constant 0 as log-probability. The logits are a mean and a log-std of the same length,
  which is how the policy network is sized (\<open>act_dim * 2\<close> outputs).
\<close>

theorem deterministic_action_is_mean:
  assumes "deterministic_policy (args self)"
      and "forward (policy self) obs = mean @ log_std"
      and "length mean = length log_std"
  shows "compute_action forward self obs sample = Inr (mean, 0)"
  using assms by (simp add: compute_action_def logits2action_def tf_split2_halves)

theorem deterministic_action_is_mean_witness:
  "deterministic_policy (args (group_example\<lparr>args := args_example\<lparr>deterministic_policy := True\<rparr>\<rparr>))
   \<and> forward_example (policy (group_example\<lparr>args := args_example\<lparr>deterministic_policy := True\<rparr>\<rparr>)) [1, 1]
       = [3] @ [7]
   \<and> length [3 :: real] = length [7 :: real]
   \<and> compute_action forward_example (group_example\<lparr>args := args_example\<lparr>deterministic_policy := True\<rparr>\<rparr>)
        [1, 1] sample_zero = Inr ([3], 0)"
proof -
  have d: "deterministic_policy (args (group_example\<lparr>args := args_example\<lparr>deterministic_policy := True\<rparr>\<rparr>))"
    by simp
  have f: "forward_example (policy (group_example\<lparr>args := args_example\<lparr>deterministic_policy := True\<rparr>\<rparr>)) [1, 1]
       = [3] @ [7]"
    by (simp add: forward_example_def group_example_def init_defs args_example_def fresh_example_def)
  have l: "length [3 :: real] = length [7 :: real]"
    by simp
  from deterministic_action_is_mean [where forward = forward_example and obs = "[1, 1]"
      and mean = "[3]" and log_std = "[7]" and sample = sample_zero, OF d f l] d f l
  show ?thesis
    by blast
qed

lemma ln_eps_pos: "0 < ln (1 + 1 / 10 ^ 6 :: real)"
  by (rule ln_gt_zero) simp

text \<open>
  C1: in the stochastic branch the returned action is \<open>tanh(a_raw)\<close>, and the claim gives
  the log-probability as the sum over the dimensions of
  \<open>log_prob_normal(a_raw) - log(1 - tanh(a_raw)\<^sup>2 + 1e-6)\<close>. Line 183 adds \<open>1e-6\<close> after
  the logarithm. With mean 0, log-std 0 and the draw 0 the code returns
  \<open>- ln (2 pi) / 2 + 1e-6\<close>, and the formula of the claim gives
  \<open>- ln (2 pi) / 2 - ln (1 + 1e-6)\<close>, which is smaller.
\<close>

theorem stochastic_logp_epsilon_outside_log:
  "logits2action (args_example\<lparr>deterministic_policy := False\<rparr>) [0, 0] sample_zero
     = Inr ([tanh 0], - ln (2 * pi) / 2 + 1 / 10 ^ 6)
   \<and> spec_logp [0] [exp 0] [0] = - ln (2 * pi) / 2 - ln (1 + 1 / 10 ^ 6)
   \<and> - ln (2 * pi) / 2 + 1 / 10 ^ 6 \<noteq> - ln (2 * pi) / 2 - ln (1 + 1 / 10 ^ 6 :: real)"
proof -
  have "logits2action (args_example\<lparr>deterministic_policy := False\<rparr>) [0, 0] sample_zero
          = Inr ([tanh 0], - ln (2 * pi) / 2 + 1 / 10 ^ 6)"
    by (simp add: logits2action_def tf_split2_def normal_log_prob_def args_example_def
        sample_zero_def)
  moreover have "spec_logp [0] [exp 0] [0] = - ln (2 * pi) / 2 - ln (1 + 1 / 10 ^ 6)"
    by (simp add: normal_log_prob_def)
  moreover have "- ln (2 * pi) / 2 + 1 / 10 ^ 6 \<noteq> - ln (2 * pi) / 2 - ln (1 + 1 / 10 ^ 6 :: real)"
  proof -
    have "0 < l \<Longrightarrow> 0 < e \<Longrightarrow> c + e \<noteq> c - l" for c e l :: real
      by linarith
    from this [OF ln_eps_pos, of "1 / 10 ^ 6"] show ?thesis
      by simp
  qed
  ultimately show ?thesis by blast
qed

subsection \<open>Construction\<close>

text \<open>
  C2: after construction every target module should hold a copy of the parameters of its
  live counterpart. The constructor copies \<open>Q1\<close> into \<open>Q1_target\<close> and \<open>Q2\<close> into
  \<open>Q2_target\<close> (lines 38 and 44) and has no such line for \<open>policy_target\<close>: in the group
  built from \<open>fresh_example\<close> the policy target is in \<open>target_models\<close> and keeps its own
  initial parameters.
\<close>

theorem policy_target_not_copied:
  "PolicyWithQs_init fresh_example (Box [2]) (Box [1]) args_example = Inr group_example
   \<and> Ref_policy_target \<in> set (target_models group_example)
   \<and> weights (policy group_example) = [[1, 2], [3, 4]]
   \<and> weights (policy_target group_example) = [[5, 6], [7, 8]]
   \<and> weights (policy_target group_example) \<noteq> weights (policy group_example)
   \<and> weights (Q1_target group_example) = weights (Q1 group_example)
   \<and> weights (Q2_target group_example) = weights (Q2 group_example)"
  by (simp add: group_example_def init_defs args_example_def fresh_example_def)

text \<open>
  C4, as stated: with \<open>policy_only\<close> the group has exactly one trainable module and one
  optimizer. Lines 67-72 run after the branch on \<open>policy_only\<close>: with \<open>alpha = 'auto'\<close>
  the alpha module and its optimizer are appended, and the group has two of each.
\<close>

theorem policy_only_auto_has_two_modules:
  "policy_only (args_example\<lparr>policy_only := True, alpha := Auto\<rparr>)
   \<and> \<not> isl (PolicyWithQs_init fresh_example (Box [2]) (Box [1])
              (args_example\<lparr>policy_only := True, alpha := Auto\<rparr>))
   \<and> models (projr (PolicyWithQs_init fresh_example (Box [2]) (Box [1])
              (args_example\<lparr>policy_only := True, alpha := Auto\<rparr>))) = [Ref_policy, Ref_alpha_model]
   \<and> optimizers (projr (PolicyWithQs_init fresh_example (Box [2]) (Box [1])
              (args_example\<lparr>policy_only := True, alpha := Auto\<rparr>)))
        = [Ref_policy_optimizer, Ref_alpha_optimizer]"
  by (simp add: init_defs args_example_def)

text \<open>
  C4, amended: with \<open>policy_only\<close> the group has no target module and no critic; its
  trainable modules are the policy, followed by the alpha module exactly when \<open>alpha\<close> is
  \<open>'auto'\<close>, and its optimizers are the policy optimizer, followed by the alpha optimizer
  in the same case. So there is exactly one module and one optimizer when \<open>alpha\<close> is not
  \<open>'auto'\<close>.
\<close>

theorem policy_only_group:
  assumes "PolicyWithQs_init fr obs_space act_space a = Inr g" and "policy_only a"
  shows "target_models g = []
     \<and> models g = (if alpha a = Auto then [Ref_policy, Ref_alpha_model] else [Ref_policy])
     \<and> optimizers g = (if alpha a = Auto then [Ref_policy_optimizer, Ref_alpha_optimizer]
                       else [Ref_policy_optimizer])"
  using assms
  by (auto simp add: init_defs split: space.splits if_splits)

theorem policy_only_group_witness:
  "PolicyWithQs_init fresh_example (Box [2]) (Box [1])
      (args_example\<lparr>policy_only := True, alpha := Fixed (1 / 5)\<rparr>) = Inr group_policy_only
   \<and> policy_only (args_example\<lparr>policy_only := True, alpha := Fixed (1 / 5)\<rparr>)
   \<and> target_models group_policy_only = []
   \<and> models group_policy_only = [Ref_policy]
   \<and> optimizers group_policy_only = [Ref_policy_optimizer]"
proof -
  have g: "PolicyWithQs_init fresh_example (Box [2]) (Box [1])
      (args_example\<lparr>policy_only := True, alpha := Fixed (1 / 5)\<rparr>) = Inr group_policy_only"
    by (simp add: group_policy_only_def init_defs args_example_def)
  have p: "policy_only (args_example\<lparr>policy_only := True, alpha := Fixed (1 / 5)\<rparr>)"
    by simp
  from policy_only_group [OF g p] g p show ?thesis
    by (simp add: args_example_def)
qed

text \<open>
  C8, as stated: every configuration with \<open>double_Q\<close> true and \<open>target\<close> false fails at
  construction. The assertion of line 54 is inside the \<open>else\<close> branch of \<open>policy_only\<close>:
  with \<open>policy_only\<close> true the same flags construct a group.
\<close>

theorem policy_only_double_Q_without_target_succeeds:
  "double_Q (args_example\<lparr>policy_only := True, double_Q := True, target := False\<rparr>)
   \<and> \<not> target (args_example\<lparr>policy_only := True, double_Q := True, target := False\<rparr>)
   \<and> \<not> isl (PolicyWithQs_init fresh_example (Box [2]) (Box [1])
              (args_example\<lparr>policy_only := True, double_Q := True, target := False\<rparr>))"
  by (simp add: PolicyWithQs_init_def args_example_def)

text \<open>
  C8, amended: every configuration that is not \<open>policy_only\<close> and has \<open>double_Q\<close> true and
  \<open>target\<close> false fails at construction, whatever the other arguments: with the assertion
  error of line 54 or, before it, with the error of a malformed space.
\<close>

theorem double_Q_without_target_fails:
  assumes "\<not> policy_only a" and "double_Q a" and "\<not> target a"
  shows "PolicyWithQs_init fr obs_space act_space a = Inl AssertionError
       \<or> PolicyWithQs_init fr obs_space act_space a = Inl IndexError"
  using assms by (simp add: PolicyWithQs_init_def split: space.splits)

theorem double_Q_without_target_fails_witness:
  "\<not> policy_only (args_example\<lparr>target := False\<rparr>) \<and> double_Q (args_example\<lparr>target := False\<rparr>)
   \<and> \<not> target (args_example\<lparr>target := False\<rparr>)
   \<and> PolicyWithQs_init fresh_example (Box [2]) (Box [1]) (args_example\<lparr>target := False\<rparr>)
        = Inl AssertionError"
proof -
  have h: "\<not> policy_only (args_example\<lparr>target := False\<rparr>)" "double_Q (args_example\<lparr>target := False\<rparr>)"
      "\<not> target (args_example\<lparr>target := False\<rparr>)"
    by (simp_all add: args_example_def)
  have "PolicyWithQs_init fresh_example (Box [2]) (Box [1]) (args_example\<lparr>target := False\<rparr>)
          \<noteq> Inl IndexError"
    by (simp add: PolicyWithQs_init_def args_example_def)
  with double_Q_without_target_fails [OF h, of fresh_example "Box [2]" "Box [1]"] h show ?thesis
    by blast
qed

subsection \<open>Gradient routing\<close>

text \<open>
  C5: in a group that is not \<open>policy_only\<close>, a call of \<open>apply_gradients\<close> whose iteration
  is not a multiple of \<open>delay_update\<close> raises nothing, leaves the three target modules, the
  policy and its optimizer and the alpha module and its optimizer as they were, and
  advances the optimizer of \<open>Q1\<close> by one step; the optimizer of \<open>Q2\<close> advances by one step
  with \<open>double_Q\<close> and is untouched without.
\<close>

theorem delayed_step_frame:
  assumes "\<not> policy_only (args self)"
      and "delay_update (args self) \<noteq> 0"
      and "iteration mod delay_update (args self) \<noteq> 0"
  shows "fst (apply_gradients upd iteration grads self) = None
     \<and> policy_target (snd (apply_gradients upd iteration grads self)) = policy_target self
     \<and> Q1_target (snd (apply_gradients upd iteration grads self)) = Q1_target self
     \<and> Q2_target (snd (apply_gradients upd iteration grads self)) = Q2_target self
     \<and> policy_optimizer (snd (apply_gradients upd iteration grads self)) = policy_optimizer self
     \<and> policy (snd (apply_gradients upd iteration grads self)) = policy self
     \<and> alpha_optimizer (snd (apply_gradients upd iteration grads self)) = alpha_optimizer self
     \<and> alpha_model (snd (apply_gradients upd iteration grads self)) = alpha_model self
     \<and> iterations (Q1_optimizer (snd (apply_gradients upd iteration grads self)))
         = Suc (iterations (Q1_optimizer self))
     \<and> (if double_Q (args self)
         then iterations (Q2_optimizer (snd (apply_gradients upd iteration grads self)))
                = Suc (iterations (Q2_optimizer self))
         else Q2_optimizer (snd (apply_gradients upd iteration grads self)) = Q2_optimizer self)"
  using assms by (simp add: apply_gradients_def apply_defs Let_def)

theorem delayed_step_frame_witness:
  "\<not> policy_only (args group_example) \<and> delay_update (args group_example) \<noteq> 0
   \<and> (3::int) mod delay_update (args group_example) \<noteq> 0
   \<and> fst (apply_gradients upd_example 3 [[1], [1], [1], [1], [1, 1], [1, 1], [1]] group_example) = None
   \<and> policy_target (snd (apply_gradients upd_example 3 [[1], [1], [1], [1], [1, 1], [1, 1], [1]]
         group_example)) = policy_target group_example
   \<and> iterations (Q1_optimizer (snd (apply_gradients upd_example 3
         [[1], [1], [1], [1], [1, 1], [1, 1], [1]] group_example))) = 1"
proof -
  have h: "\<not> policy_only (args group_example)" "delay_update (args group_example) \<noteq> 0"
     "(3::int) mod delay_update (args group_example) \<noteq> 0"
    by (simp_all add: args_group_example args_example_def)
  have i: "iterations (Q1_optimizer group_example) = 0"
    by (simp add: group_example_def init_defs args_example_def)
  from delayed_step_frame [OF h, of upd_example "[[1], [1], [1], [1], [1, 1], [1, 1], [1]]"] h i
  show ?thesis by simp
qed


subsection \<open>Target smoothing\<close>

lemmas update_defs = update_policy_target_def update_Q1_target_def update_Q2_target_def
  module_set_weights_def module_get_weights_def

lemma blend_nth:
  "length source = length target' \<Longrightarrow> j < length target' \<Longrightarrow>
   blend t source target' ! j = t * source ! j + (1 - t) * target' ! j"
  by (simp add: blend_def)

lemma blend_one: "length source = length target' \<Longrightarrow> blend 1 source target' = source"
  by (rule nth_equalityI) (simp_all add: blend_def)

lemma blend_zero: "length source = length target' \<Longrightarrow> blend 0 source target' = target'"
  by (rule nth_equalityI) (simp_all add: blend_def)

lemma same_shape_nth:
  assumes "map length ss = map length ts" and "i < length ts"
  shows "length (ss ! i) = length (ts ! i)"
proof -
  from assms have l: "length ss = length ts"
    by (metis length_map)
  from assms have "map length ss ! i = map length ts ! i"
    by simp
  with l assms(2) show ?thesis by simp
qed

lemma soft_nth:
  assumes "map length ss = map length ts" and "i < length ts" and "j < length (ts ! i)"
  shows "map2 (blend t) ss ts ! i ! j = t * ss ! i ! j + (1 - t) * ts ! i ! j"
proof -
  from assms have l: "length ss = length ts"
    by (metis length_map)
  with assms have "map2 (blend t) ss ts ! i = blend t (ss ! i) (ts ! i)"
    by simp
  with assms same_shape_nth [OF assms(1,2)] show ?thesis
    by (simp add: blend_nth)
qed

lemma soft_shape:
  assumes "map length ss = map length ts"
  shows "map length (map2 (blend t) ss ts) = map length ts"
proof (rule nth_equalityI)
  from assms have l: "length ss = length ts"
    by (metis length_map)
  then show "length (map length (map2 (blend t) ss ts)) = length (map length ts)"
    by simp
  fix i assume "i < length (map length (map2 (blend t) ss ts))"
  with l have i: "i < length ts" by simp
  with l same_shape_nth [OF assms i]
  show "map length (map2 (blend t) ss ts) ! i = map length ts ! i"
    by (simp add: blend_def)
qed

lemma soft_one:
  assumes "map length ss = map length ts"
  shows "map2 (blend 1) ss ts = ss"
proof (rule nth_equalityI)
  from assms have l: "length ss = length ts"
    by (metis length_map)
  then show "length (map2 (blend 1) ss ts) = length ss" by simp
  fix i assume "i < length (map2 (blend 1) ss ts)"
  with l have i: "i < length ts" by simp
  with l same_shape_nth [OF assms i] show "map2 (blend 1) ss ts ! i = ss ! i"
    by (simp add: blend_one)
qed

lemma soft_zero:
  assumes "map length ss = map length ts"
  shows "map2 (blend 0) ss ts = ts"
proof (rule nth_equalityI)
  from assms have l: "length ss = length ts"
    by (metis length_map)
  then show "length (map2 (blend 0) ss ts) = length ts" by simp
  fix i assume "i < length (map2 (blend 0) ss ts)"
  with l have i: "i < length ts" by simp
  with l same_shape_nth [OF assms i] show "map2 (blend 0) ss ts ! i = ts ! i"
    by (simp add: blend_zero)
qed

text \<open>
  C7: each of the three target updates, on a source and a target of one shape, sets
  every entry of every target tensor to \<open>tau * source + (1 - tau) * target\<close> at the same
  position and keeps the shape; with \<open>tau = 1\<close> the target parameters become the source
  parameters, and with \<open>tau = 0\<close> the object is left as it was.
\<close>

theorem soft_update_rule:
  "\<forall>(update, source, target') \<in> set [(update_Q1_target, Q1, Q1_target),
        (update_Q2_target, Q2, Q2_target), (update_policy_target, policy, policy_target)].
     map length (weights (source self)) = map length (weights (target' self)) \<longrightarrow>
       (\<forall>i < length (weights (target' self)). \<forall>j < length (weights (target' self) ! i).
          weights (target' (update self)) ! i ! j
            = tau (args self) * weights (source self) ! i ! j
              + (1 - tau (args self)) * weights (target' self) ! i ! j)
       \<and> map length (weights (target' (update self))) = map length (weights (target' self))
       \<and> weights (target' (update (self\<lparr>args := (args self)\<lparr>tau := 1\<rparr>\<rparr>))) = weights (source self)
       \<and> update (self\<lparr>args := (args self)\<lparr>tau := 0\<rparr>\<rparr>) = self\<lparr>args := (args self)\<lparr>tau := 0\<rparr>\<rparr>"
  by (simp add: update_defs soft_nth soft_shape soft_one soft_zero del: map_map)

theorem soft_update_rule_witness:
  "map length (weights (policy group_example)) = map length (weights (policy_target group_example))
   \<and> weights (policy_target group_example) = [[5, 6], [7, 8]]
   \<and> weights (policy_target (update_policy_target (group_example\<lparr>args := (args group_example)\<lparr>tau := 1\<rparr>\<rparr>)))
       = [[1, 2], [3, 4]]
   \<and> update_policy_target (group_example\<lparr>args := (args group_example)\<lparr>tau := 0\<rparr>\<rparr>)
       = group_example\<lparr>args := (args group_example)\<lparr>tau := 0\<rparr>\<rparr>
   \<and> weights (policy_target (update_policy_target group_example)) ! 1 ! 0 = 5"
proof -
  have s: "map length (weights (policy group_example)) = map length (weights (policy_target group_example))"
    and p: "weights (policy group_example) = [[1, 2], [3, 4]]"
    and t: "weights (policy_target group_example) = [[5, 6], [7, 8]]"
    and a: "tau (args group_example) = 1 / 2"
    by (simp_all add: group_example_def init_defs args_example_def fresh_example_def)
  from soft_update_rule [of group_example] s p t a show ?thesis
    by simp
qed

subsection \<open>Snapshots\<close>

lemma init_Inr_iff:
  "PolicyWithQs_init fr obs_space act_space a = Inr g0 \<Longrightarrow>
     \<exists>obs_shape act_shape. obs_space = Box obs_shape \<and> act_space = Box act_shape
       \<and> \<not> (obs_dim a = None \<and> obs_shape = []) \<and> \<not> (act_dim a = None \<and> act_shape = [])
       \<and> (policy_only a \<or> \<not> double_Q a \<or> target a)"
  by (cases obs_space; cases act_space)
     (auto simp add: PolicyWithQs_init_def Let_def split: if_splits)

lemma init_layout:
  assumes "PolicyWithQs_init fr obs_space act_space a = Inr g0"
  shows "models g0 = (if policy_only a then [Ref_policy]
                      else if double_Q a then [Ref_Q1, Ref_Q2, Ref_policy]
                      else [Ref_Q1, Ref_policy])
                     @ (if alpha a = Auto then [Ref_alpha_model] else [])"
    and "target_models g0 = (if policy_only a then []
                      else if double_Q a then [Ref_Q1_target, Ref_Q2_target, Ref_policy_target]
                      else if target a then [Ref_Q1_target, Ref_policy_target]
                      else [])"
    and "alpha_model g0 = None \<longleftrightarrow> alpha a \<noteq> Auto"
    and "optimizers g0 = (if policy_only a then [Ref_policy_optimizer]
                      else if double_Q a then [Ref_Q1_optimizer, Ref_Q2_optimizer, Ref_policy_optimizer]
                      else [Ref_Q1_optimizer, Ref_policy_optimizer])
                     @ (if alpha a = Auto then [Ref_alpha_optimizer] else [])"
proof -
  from init_Inr_iff [OF assms] obtain obs_shape act_shape where
    s: "obs_space = Box obs_shape" "act_space = Box act_shape"
    and c: "\<not> (obs_dim a = None \<and> obs_shape = [])" "\<not> (act_dim a = None \<and> act_shape = [])"
    and f: "policy_only a \<or> \<not> double_Q a \<or> target a"
    by blast
  from assms have g: "g0 = projr (PolicyWithQs_init fr obs_space act_space a)"
    by simp
  from c have c': "(obs_dim a = None \<and> obs_shape = []) = False"
      "(act_dim a = None \<and> act_shape = []) = False"
    by blast+
  have "models g0 = (if policy_only a then [Ref_policy]
                      else if double_Q a then [Ref_Q1, Ref_Q2, Ref_policy]
                      else [Ref_Q1, Ref_policy])
                     @ (if alpha a = Auto then [Ref_alpha_model] else [])
    \<and> target_models g0 = (if policy_only a then []
                      else if double_Q a then [Ref_Q1_target, Ref_Q2_target, Ref_policy_target]
                      else if target a then [Ref_Q1_target, Ref_policy_target]
                      else [])
    \<and> (alpha_model g0 = None \<longleftrightarrow> alpha a \<noteq> Auto)
    \<and> optimizers g0 = (if policy_only a then [Ref_policy_optimizer]
                      else if double_Q a then [Ref_Q1_optimizer, Ref_Q2_optimizer, Ref_policy_optimizer]
                      else [Ref_Q1_optimizer, Ref_policy_optimizer])
                     @ (if alpha a = Auto then [Ref_alpha_optimizer] else [])"
    unfolding g s using f
    by (cases "policy_only a"; cases "double_Q a"; cases "target a"; cases "alpha a = Auto")
       (simp_all add: PolicyWithQs_init_def Let_def c')
  then show "models g0 = (if policy_only a then [Ref_policy]
                      else if double_Q a then [Ref_Q1, Ref_Q2, Ref_policy]
                      else [Ref_Q1, Ref_policy])
                     @ (if alpha a = Auto then [Ref_alpha_model] else [])"
    and "target_models g0 = (if policy_only a then []
                      else if double_Q a then [Ref_Q1_target, Ref_Q2_target, Ref_policy_target]
                      else if target a then [Ref_Q1_target, Ref_policy_target]
                      else [])"
    and "alpha_model g0 = None \<longleftrightarrow> alpha a \<noteq> Auto"
    and "optimizers g0 = (if policy_only a then [Ref_policy_optimizer]
                      else if double_Q a then [Ref_Q1_optimizer, Ref_Q2_optimizer, Ref_policy_optimizer]
                      else [Ref_Q1_optimizer, Ref_policy_optimizer])
                     @ (if alpha a = Auto then [Ref_alpha_optimizer] else [])"
    by blast+
qed

lemma same_layout_alpha:
  "same_layout g h \<Longrightarrow> (alpha_model g = None \<longleftrightarrow> alpha_model h = None)"
  by (auto simp add: same_layout_def)

lemma set_module_weights_simps:
  "set_module_weights Ref_policy w self = (None, self\<lparr>policy := (policy self)\<lparr>weights := w\<rparr>\<rparr>)"
  "set_module_weights Ref_policy_target w self = (None, self\<lparr>policy_target := (policy_target self)\<lparr>weights := w\<rparr>\<rparr>)"
  "set_module_weights Ref_Q1 w self = (None, self\<lparr>Q1 := (Q1 self)\<lparr>weights := w\<rparr>\<rparr>)"
  "set_module_weights Ref_Q1_target w self = (None, self\<lparr>Q1_target := (Q1_target self)\<lparr>weights := w\<rparr>\<rparr>)"
  "set_module_weights Ref_Q2 w self = (None, self\<lparr>Q2 := (Q2 self)\<lparr>weights := w\<rparr>\<rparr>)"
  "set_module_weights Ref_Q2_target w self = (None, self\<lparr>Q2_target := (Q2_target self)\<lparr>weights := w\<rparr>\<rparr>)"
  "alpha_model self = Some m \<Longrightarrow>
     set_module_weights Ref_alpha_model w self = (None, self\<lparr>alpha_model := Some (m\<lparr>weights := w\<rparr>)\<rparr>)"
  by (simp_all add: set_module_weights_def module_set_weights_def)

text \<open>
  C10: for an object \<open>self\<close> with the layout of a constructed group, \<open>get_weights\<close> returns
  the parameters of the trainable modules in the order of \<open>models\<close>, followed by those of
  the target modules in the order of \<open>target_models\<close>; \<open>set_weights\<close> applied to that
  sequence on an object \<open>other\<close> of the same layout raises nothing and leaves every module
  of the two tuples with the parameters of the snapshot; applied to \<open>self\<close> it leaves
  \<open>self\<close> as it is.
\<close>

theorem set_weights_restores_snapshot:
  assumes "PolicyWithQs_init fr obs_space act_space a = Inr g0"
      and "same_layout self g0" and "same_layout other g0"
  shows "\<exists>ws. get_weights self = Inr ws
      \<and> map Some ws = map (\<lambda>r. map_option weights (get_module self r))
                        (models self @ target_models self)
      \<and> fst (set_weights ws other) = None
      \<and> (\<forall>r \<in> set (models self @ target_models self).
            map_option weights (get_module (snd (set_weights ws other)) r)
              = map_option weights (get_module self r))
      \<and> set_weights ws self = (None, self)"
proof -
  note il = init_layout [OF assms(1)]
  from assms(2,3) have l: "models self = models g0" "target_models self = target_models g0"
      "models other = models g0" "target_models other = target_models g0"
    by (simp_all add: same_layout_def)
  show ?thesis
  proof (cases "alpha a = Auto")
    case True
    with il(3) same_layout_alpha [OF assms(2)] same_layout_alpha [OF assms(3)]
    obtain m m' where m: "alpha_model self = Some m" "alpha_model other = Some m'"
      by auto
    from l il(1,2) True m show ?thesis
      by (cases "policy_only a"; cases "double_Q a"; cases "target a")
         (simp_all add: get_weights_def set_weights_def set_module_weights_simps
            module_get_weights_def)
  next
    case False
    with l il(1,2) show ?thesis
      by (cases "policy_only a"; cases "double_Q a"; cases "target a")
         (simp_all add: get_weights_def set_weights_def set_module_weights_simps
            module_get_weights_def)
  qed
qed


lemma group_example_init:
  "PolicyWithQs_init fresh_example (Box [2]) (Box [1]) args_example = Inr group_example"
  by (simp add: group_example_def init_defs args_example_def)

lemma group_zero_init:
  "PolicyWithQs_init fresh_zero (Box [2]) (Box [1]) args_example = Inr group_zero"
  by (simp add: group_zero_def init_defs args_example_def)

lemma group_example_fields:
  "models group_example = [Ref_Q1, Ref_Q2, Ref_policy, Ref_alpha_model]"
  "target_models group_example = [Ref_Q1_target, Ref_Q2_target, Ref_policy_target]"
  "optimizers group_example = [Ref_Q1_optimizer, Ref_Q2_optimizer, Ref_policy_optimizer, Ref_alpha_optimizer]"
  "policy group_example = \<lparr>name = ''policy'', weights = [[1, 2], [3, 4]]\<rparr>"
  "policy_target group_example = \<lparr>name = ''policy_target'', weights = [[5, 6], [7, 8]]\<rparr>"
  "Q1 group_example = \<lparr>name = ''Q1'', weights = [[9], [10]]\<rparr>"
  "Q1_target group_example = \<lparr>name = ''Q1_target'', weights = [[9], [10]]\<rparr>"
  "Q2 group_example = \<lparr>name = ''Q2'', weights = [[13], [14]]\<rparr>"
  "Q2_target group_example = \<lparr>name = ''Q2_target'', weights = [[13], [14]]\<rparr>"
  "alpha_model group_example = Some \<lparr>name = ''alpha'', weights = [[0]]\<rparr>"
  "policy_optimizer group_example = \<lparr>opt_name = ''policy_adam_opt'', iterations = 0\<rparr>"
  "Q1_optimizer group_example = \<lparr>opt_name = ''Q1_adam_opt'', iterations = 0\<rparr>"
  "Q2_optimizer group_example = \<lparr>opt_name = ''Q2_adam_opt'', iterations = 0\<rparr>"
  "alpha_optimizer group_example = Some \<lparr>opt_name = ''alpha_adam_opt'', iterations = 0\<rparr>"
  by (simp_all add: group_example_def init_defs args_example_def fresh_example_def)

lemma group_zero_fields:
  "models group_zero = [Ref_Q1, Ref_Q2, Ref_policy, Ref_alpha_model]"
  "target_models group_zero = [Ref_Q1_target, Ref_Q2_target, Ref_policy_target]"
  "optimizers group_zero = [Ref_Q1_optimizer, Ref_Q2_optimizer, Ref_policy_optimizer, Ref_alpha_optimizer]"
  "policy group_zero = \<lparr>name = ''policy'', weights = [[0, 0], [0, 0]]\<rparr>"
  "policy_target group_zero = \<lparr>name = ''policy_target'', weights = [[0, 0], [0, 0]]\<rparr>"
  "Q1 group_zero = \<lparr>name = ''Q1'', weights = [[0], [0]]\<rparr>"
  "Q1_target group_zero = \<lparr>name = ''Q1_target'', weights = [[0], [0]]\<rparr>"
  "Q2 group_zero = \<lparr>name = ''Q2'', weights = [[0], [0]]\<rparr>"
  "Q2_target group_zero = \<lparr>name = ''Q2_target'', weights = [[0], [0]]\<rparr>"
  "alpha_model group_zero = Some \<lparr>name = ''alpha'', weights = [[1]]\<rparr>"
  "policy_optimizer group_zero = \<lparr>opt_name = ''policy_adam_opt'', iterations = 0\<rparr>"
  "Q1_optimizer group_zero = \<lparr>opt_name = ''Q1_adam_opt'', iterations = 0\<rparr>"
  "Q2_optimizer group_zero = \<lparr>opt_name = ''Q2_adam_opt'', iterations = 0\<rparr>"
  "alpha_optimizer group_zero = Some \<lparr>opt_name = ''alpha_adam_opt'', iterations = 0\<rparr>"
  by (simp_all add: group_zero_def init_defs args_example_def fresh_zero_def)

lemma same_layout_examples:
  "same_layout group_example group_example" "same_layout group_zero group_example"
  by (simp_all add: same_layout_def group_example_fields group_zero_fields)

lemma get_weights_group_example:
  "get_weights group_example
     = Inr [[[9], [10]], [[13], [14]], [[1, 2], [3, 4]], [[0]],
            [[9], [10]], [[13], [14]], [[5, 6], [7, 8]]]"
  by (simp add: get_weights_def module_get_weights_def group_example_fields)

theorem set_weights_restores_snapshot_witness:
  "PolicyWithQs_init fresh_example (Box [2]) (Box [1]) args_example = Inr group_example
   \<and> same_layout group_example group_example
   \<and> same_layout group_zero group_example
   \<and> weights (policy_target group_zero) = [[0, 0], [0, 0]]
   \<and> fst (set_weights [[[9], [10]], [[13], [14]], [[1, 2], [3, 4]], [[0]],
                        [[9], [10]], [[13], [14]], [[5, 6], [7, 8]]] group_zero) = None
   \<and> weights (policy_target (snd (set_weights [[[9], [10]], [[13], [14]], [[1, 2], [3, 4]], [[0]],
                        [[9], [10]], [[13], [14]], [[5, 6], [7, 8]]] group_zero))) = [[5, 6], [7, 8]]
   \<and> set_weights [[[9], [10]], [[13], [14]], [[1, 2], [3, 4]], [[0]],
                   [[9], [10]], [[13], [14]], [[5, 6], [7, 8]]] group_example = (None, group_example)"
proof -
  from set_weights_restores_snapshot [OF group_example_init same_layout_examples]
  obtain ws where ws: "get_weights group_example = Inr ws"
      "fst (set_weights ws group_zero) = None"
      "\<forall>r \<in> set (models group_example @ target_models group_example).
            map_option weights (get_module (snd (set_weights ws group_zero)) r)
              = map_option weights (get_module group_example r)"
      "set_weights ws group_example = (None, group_example)"
    by blast
  from ws(1) have e: "ws = [[[9], [10]], [[13], [14]], [[1, 2], [3, 4]], [[0]],
                   [[9], [10]], [[13], [14]], [[5, 6], [7, 8]]]"
    by (simp add: get_weights_group_example)
  from ws(3) have "map_option weights (get_module (snd (set_weights ws group_zero)) Ref_policy_target)
              = map_option weights (get_module group_example Ref_policy_target)"
    by (simp add: group_example_fields)
  then have p: "weights (policy_target (snd (set_weights ws group_zero))) = [[5, 6], [7, 8]]"
    by (simp add: group_example_fields)
  have z: "weights (policy_target group_zero) = [[0, 0], [0, 0]]"
    by (simp add: group_zero_fields)
  from group_example_init same_layout_examples z ws(2) p ws(4) show ?thesis
    unfolding e by blast
qed

subsection \<open>Gradient lengths\<close>
















subsection \<open>Checkpoints\<close>


lemma init_names:
  assumes "PolicyWithQs_init fr obs_space act_space a = Inr g0"
  shows "name (policy g0) = ''policy'' \<and> name (policy_target g0) = ''policy_target''
    \<and> name (Q1 g0) = ''Q1'' \<and> name (Q1_target g0) = ''Q1_target''
    \<and> name (Q2 g0) = ''Q2'' \<and> name (Q2_target g0) = ''Q2_target''
    \<and> map_option name (alpha_model g0) = (if alpha a = Auto then Some ''alpha'' else None)
    \<and> opt_name (policy_optimizer g0) = ''policy_adam_opt''
    \<and> opt_name (Q1_optimizer g0) = ''Q1_adam_opt''
    \<and> opt_name (Q2_optimizer g0) = ''Q2_adam_opt''
    \<and> map_option opt_name (alpha_optimizer g0) = (if alpha a = Auto then Some ''alpha_adam_opt'' else None)"
proof -
  from init_Inr_iff [OF assms] obtain obs_shape act_shape where
    s: "obs_space = Box obs_shape" "act_space = Box act_shape"
    and c: "\<not> (obs_dim a = None \<and> obs_shape = [])" "\<not> (act_dim a = None \<and> act_shape = [])"
    and f: "policy_only a \<or> \<not> double_Q a \<or> target a"
    by blast
  from assms have g: "g0 = projr (PolicyWithQs_init fr obs_space act_space a)"
    by simp
  from c have c': "(obs_dim a = None \<and> obs_shape = []) = False"
      "(act_dim a = None \<and> act_shape = []) = False"
    by blast+
  show ?thesis
    unfolding g s using f
    by (cases "policy_only a"; cases "double_Q a"; cases "target a"; cases "alpha a = Auto")
       (simp_all add: init_defs Let_def c')
qed


lemma restore_module_same_name [simp]:
  "name live = name m \<Longrightarrow> module_set_weights (weights m) live = m"
  by (simp add: module_set_weights_def)

lemma restore_counter_saved [simp]:
  "opt_name live = opt_name opt \<Longrightarrow>
   restore_counter (saved_counter opt) live = (if iterations opt = 0 then live else opt)"
  for live opt :: optimizer
  by (simp add: restore_counter_def saved_counter_def)

lemmas ckpt_defs = save_weights_def load_weights_def Checkpoint_def py_dict_def ckpt_save_def
  ckpt_restore_def

text \<open>
  C9, amended: \<open>save_weights(path, iteration)\<close> hands the modules of \<open>models\<close> and
  \<open>target_models\<close> and the optimizers of \<open>optimizers\<close>, each under its name, to
  \<open>Checkpoint.save\<close> with the prefix \<open>path/ckpt_ite<iteration>\<close>, and the file is stored
  under that prefix followed by \<open>-1\<close>; \<open>load_weights(path, iteration)\<close> restores from
  exactly \<open>path/ckpt_ite<iteration>-1\<close>. For an object with the layout of a constructed
  group, a save followed by a load at the same path and iteration, into an object of the
  same layout, raises nothing and leaves every module of the two module tuples equal to
  the saved one, and every optimizer that had taken a step when it was saved equal to the
  saved one; an optimizer saved before its first step has no counter in the file, and the
  optimizer of the loading object is left as it was.
\<close>

theorem save_then_load_round_trip:
  assumes "PolicyWithQs_init fr obs_space act_space a = Inr g0"
      and "same_layout self g0" and "same_layout other g0"
  shows "\<exists>st'. save_weights save_dir iteration self st = Inr st'
      \<and> st' (save_dir @ ''/ckpt_ite'' @ str iteration @ ''-1'') \<noteq> None
      \<and> fst (load_weights save_dir iteration st' other) = None
      \<and> (\<forall>r \<in> set (models self @ target_models self).
            get_module (snd (load_weights save_dir iteration st' other)) r = get_module self r)
      \<and> (\<forall>r \<in> set (optimizers self).
            get_optimizer (snd (load_weights save_dir iteration st' other)) r
              = (if map_option iterations (get_optimizer self r) = Some 0
                 then get_optimizer other r else get_optimizer self r))"
proof -
  note il = init_layout(1,2,4) [OF assms(1)]
  note nm = init_names [OF assms(1)]
  from assms(2,3) have l: "models self = models g0" "target_models self = target_models g0"
      "optimizers self = optimizers g0"
      "models other = models g0" "target_models other = target_models g0"
      "optimizers other = optimizers g0"
    by (simp_all add: same_layout_def)
  from assms(2,3) nm have n:
    "name (policy self) = ''policy''" "name (policy_target self) = ''policy_target''"
    "name (Q1 self) = ''Q1''" "name (Q1_target self) = ''Q1_target''"
    "name (Q2 self) = ''Q2''" "name (Q2_target self) = ''Q2_target''"
    "opt_name (policy_optimizer self) = ''policy_adam_opt''"
    "opt_name (Q1_optimizer self) = ''Q1_adam_opt''"
    "opt_name (Q2_optimizer self) = ''Q2_adam_opt''"
    "name (policy other) = ''policy''" "name (policy_target other) = ''policy_target''"
    "name (Q1 other) = ''Q1''" "name (Q1_target other) = ''Q1_target''"
    "name (Q2 other) = ''Q2''" "name (Q2_target other) = ''Q2_target''"
    "opt_name (policy_optimizer other) = ''policy_adam_opt''"
    "opt_name (Q1_optimizer other) = ''Q1_adam_opt''"
    "opt_name (Q2_optimizer other) = ''Q2_adam_opt''"
    by (simp_all add: same_layout_def)
  show ?thesis
  proof (cases "alpha a = Auto")
    case True
    from assms(2,3) nm True
    obtain m m' opt opt' where m: "alpha_model self = Some m" "alpha_model other = Some m'"
        "name m = ''alpha''" "name m' = ''alpha''"
        "alpha_optimizer self = Some opt" "alpha_optimizer other = Some opt'"
        "opt_name opt = ''alpha_adam_opt''" "opt_name opt' = ''alpha_adam_opt''"
      by (auto simp add: same_layout_def)
    from l il True m n show ?thesis
      by (cases "policy_only a"; cases "double_Q a"; cases "target a")
         (simp_all add: ckpt_defs)
  next
    case False
    with l il n show ?thesis
      by (cases "policy_only a"; cases "double_Q a"; cases "target a")
         (simp_all add: ckpt_defs)
  qed
qed


lemma str_7: "str 7 = ''7''"
  by (simp add: str_def str_nat.simps digit_char_def)

lemma group_stepped_fields:
  "models group_stepped = [Ref_Q1, Ref_Q2, Ref_policy, Ref_alpha_model]"
  "target_models group_stepped = [Ref_Q1_target, Ref_Q2_target, Ref_policy_target]"
  "optimizers group_stepped = [Ref_Q1_optimizer, Ref_Q2_optimizer, Ref_policy_optimizer, Ref_alpha_optimizer]"
  "policy group_stepped = \<lparr>name = ''policy'', weights = [[0, 1], [2, 3]]\<rparr>"
  "policy_target group_stepped = \<lparr>name = ''policy_target'', weights = [[5 / 2, 7 / 2], [9 / 2, 11 / 2]]\<rparr>"
  "Q1 group_stepped = \<lparr>name = ''Q1'', weights = [[8], [9]]\<rparr>"
  "Q1_target group_stepped = \<lparr>name = ''Q1_target'', weights = [[17 / 2], [19 / 2]]\<rparr>"
  "Q2 group_stepped = \<lparr>name = ''Q2'', weights = [[12], [13]]\<rparr>"
  "Q2_target group_stepped = \<lparr>name = ''Q2_target'', weights = [[25 / 2], [27 / 2]]\<rparr>"
  "alpha_model group_stepped = Some \<lparr>name = ''alpha'', weights = [[- 1]]\<rparr>"
  "policy_optimizer group_stepped = \<lparr>opt_name = ''policy_adam_opt'', iterations = 1\<rparr>"
  "Q1_optimizer group_stepped = \<lparr>opt_name = ''Q1_adam_opt'', iterations = 1\<rparr>"
  "Q2_optimizer group_stepped = \<lparr>opt_name = ''Q2_adam_opt'', iterations = 1\<rparr>"
  "alpha_optimizer group_stepped = Some \<lparr>opt_name = ''alpha_adam_opt'', iterations = 1\<rparr>"
  by (simp_all add: group_stepped_def apply_gradients_def apply_defs py_slice_def py_last1_def
      update_policy_target_def update_Q1_target_def update_Q2_target_def blend_def
      module_get_weights_def module_set_weights_def Let_def
      grads_surplus_def upd_example_def group_example_fields args_group_example args_example_def)

lemma same_layout_stepped: "same_layout group_stepped group_example"
  by (simp add: same_layout_def group_example_fields group_stepped_fields)

theorem save_then_load_round_trip_witness:
  "PolicyWithQs_init fresh_example (Box [2]) (Box [1]) args_example = Inr group_example
   \<and> same_layout group_stepped group_example
   \<and> same_layout group_zero group_example
   \<and> same_layout group_example group_example
   \<and> policy group_zero \<noteq> policy group_stepped
   \<and> iterations (Q1_optimizer group_zero) = 0
   \<and> \<not> isl (save_weights ''run'' 7 group_stepped Map.empty)
   \<and> fst (load_weights ''run'' 7 (projr (save_weights ''run'' 7 group_stepped Map.empty))
            group_zero) = None
   \<and> policy (snd (load_weights ''run'' 7 (projr (save_weights ''run'' 7 group_stepped Map.empty))
            group_zero)) = policy group_stepped
   \<and> iterations (Q1_optimizer (snd (load_weights ''run'' 7
            (projr (save_weights ''run'' 7 group_stepped Map.empty)) group_zero))) = 1
   \<and> iterations (Q1_optimizer (snd (load_weights ''run'' 7
            (projr (save_weights ''run'' 7 group_example Map.empty)) group_stepped))) = 1"
proof -
  from save_then_load_round_trip [OF group_example_init same_layout_stepped same_layout_examples(2),
      of "''run''" 7 Map.empty]
  obtain st' where st: "save_weights ''run'' 7 group_stepped Map.empty = Inr st'"
      "fst (load_weights ''run'' 7 st' group_zero) = None"
      "\<forall>r \<in> set (models group_stepped @ target_models group_stepped).
            get_module (snd (load_weights ''run'' 7 st' group_zero)) r = get_module group_stepped r"
      "\<forall>r \<in> set (optimizers group_stepped).
            get_optimizer (snd (load_weights ''run'' 7 st' group_zero)) r
              = (if map_option iterations (get_optimizer group_stepped r) = Some 0
                 then get_optimizer group_zero r else get_optimizer group_stepped r)"
    by blast
  from st(3) have "get_module (snd (load_weights ''run'' 7 st' group_zero)) Ref_policy
        = get_module group_stepped Ref_policy"
    by (simp add: group_stepped_fields)
  then have q: "policy (snd (load_weights ''run'' 7 st' group_zero)) = policy group_stepped"
    by simp
  from st(4) have "get_optimizer (snd (load_weights ''run'' 7 st' group_zero)) Ref_Q1_optimizer
        = (if map_option iterations (get_optimizer group_stepped Ref_Q1_optimizer) = Some 0
           then get_optimizer group_zero Ref_Q1_optimizer
           else get_optimizer group_stepped Ref_Q1_optimizer)"
    by (simp add: group_stepped_fields)
  then have o: "iterations (Q1_optimizer (snd (load_weights ''run'' 7 st' group_zero))) = 1"
    by (simp add: group_stepped_fields)
  from save_then_load_round_trip [OF group_example_init same_layout_examples(1) same_layout_stepped,
      of "''run''" 7 Map.empty]
  obtain st'' where st2: "save_weights ''run'' 7 group_example Map.empty = Inr st''"
      "\<forall>r \<in> set (optimizers group_example).
            get_optimizer (snd (load_weights ''run'' 7 st'' group_stepped)) r
              = (if map_option iterations (get_optimizer group_example r) = Some 0
                 then get_optimizer group_stepped r else get_optimizer group_example r)"
    by blast
  from st2(2) have "get_optimizer (snd (load_weights ''run'' 7 st'' group_stepped)) Ref_Q1_optimizer
        = (if map_option iterations (get_optimizer group_example Ref_Q1_optimizer) = Some 0
           then get_optimizer group_stepped Ref_Q1_optimizer
           else get_optimizer group_example Ref_Q1_optimizer)"
    by (simp add: group_example_fields)
  then have k: "iterations (Q1_optimizer (snd (load_weights ''run'' 7 st'' group_stepped))) = 1"
    by (simp add: group_example_fields group_stepped_fields)
  have d: "policy group_zero \<noteq> policy group_stepped" "iterations (Q1_optimizer group_zero) = 0"
    by (simp_all add: group_stepped_fields group_zero_fields)
  have i: "\<not> isl (save_weights ''run'' 7 group_stepped Map.empty)"
      "projr (save_weights ''run'' 7 group_stepped Map.empty) = st'"
      "projr (save_weights ''run'' 7 group_example Map.empty) = st''"
    by (simp_all add: st(1) st2(1))
  from group_example_init same_layout_stepped same_layout_examples d i(1) st(2) q o k
  show ?thesis
    unfolding i(2,3) by blast
qed

text \<open>
  C9, as stated: the group is stored under the key \<open>path/ckpt_ite<iteration>\<close> and
  \<open>load_weights\<close> reads that same key. After \<open>save_weights\<close> with path \<open>run\<close> and iteration
  7 into an empty store nothing is stored under \<open>run/ckpt_ite7\<close>, the file is under
  \<open>run/ckpt_ite7-1\<close>; and \<open>load_weights\<close> on a store that has a file under
  \<open>run/ckpt_ite7\<close> only finds nothing to restore.
\<close>

theorem checkpoint_key_is_numbered:
  "\<not> isl (save_weights ''run'' 7 group_example Map.empty)
   \<and> projr (save_weights ''run'' 7 group_example Map.empty) ''run/ckpt_ite7'' = None
   \<and> projr (save_weights ''run'' 7 group_example Map.empty) ''run/ckpt_ite7-1'' \<noteq> None
   \<and> load_weights ''run'' 7 [''run/ckpt_ite7'' \<mapsto> []] group_example
        = (Some NotFoundError, group_example)"
  by (simp add: ckpt_defs str_7 group_example_fields)

end
